theory Spec2Isabelle
  imports Complex_Main "HOL-Library.Multiset"
begin

section \<open>Values, exceptions and numbers\<close>

text \<open>
  Exceptions of the Python source are values of type \<open>error\<close>; a call that may raise
  returns \<open>error + 'a\<close> with \<open>Inl\<close> for the raised exception. \<open>AttributeError\<close> is what
  Python raises when an attribute that was never assigned is read, or when a method
  is called on \<open>None\<close>; \<open>ValueError\<close> is what \<open>np.dot\<close> raises on vectors of different
  lengths. The other constructors are the failures of the collaborators (embedding
  model, vector store).
\<close>

datatype error =
    AttributeError
  | ValueError
  | DuplicateIDError
  | InvalidMetadataError
  | CollectionNotFoundError
  | CollectionExistsError
  | CollaboratorError string

text \<open>
  The scalars numpy computes with: the finite values, the two infinities and \<open>nan\<close>.
  Every comparison with \<open>nan\<close> is false.
\<close>

datatype npfloat = Fin real | PInf | NInf | NaN

text \<open>
  Rounding to the nearest integer, ties to the even one, and with it the rounding of a
  real to the nearest binary floating-point number of precision \<open>p\<close> (bits of the
  significand) with exponents from \<open>emin\<close> to \<open>emax\<close>, as IEEE 754 arithmetic rounds
  the exact result of an operation: below \<open>2 ^ emin\<close> the spacing stays that of the
  subnormal numbers, and a result that rounds to \<open>2 ^ (emax + 1)\<close> or beyond is an
  infinity. The sign of a zero is not kept.
\<close>

definition round_half_even :: "real \<Rightarrow> int" where
  "round_half_even y =
     (let n = \<lfloor>y\<rfloor>
      in if y - of_int n < 1 / 2 then n
         else if 1 / 2 < y - of_int n then n + 1
         else if even n then n else n + 1)"

definition round_binary :: "nat \<Rightarrow> int \<Rightarrow> int \<Rightarrow> real \<Rightarrow> npfloat" where
  "round_binary p emin emax x =
     (if x = 0 then Fin 0
      else (let e = max \<lfloor>log 2 \<bar>x\<bar>\<rfloor> emin;
                q = 2 powr of_int (e - int p + 1);
                y = of_int (round_half_even (x / q)) * q
            in if 2 powr of_int (emax + 1) \<le> \<bar>y\<bar>
               then (if 0 < x then PInf else NInf)
               else Fin y))"

text \<open>binary32 (numpy's \<open>float32\<close>) and binary64 (Python's \<open>float\<close>).\<close>

definition f32 :: "real \<Rightarrow> npfloat" where
  "f32 = round_binary 24 (-126) 127"


text \<open>
  The division of two \<open>float32\<close> scalars: the quotient is rounded to \<open>float32\<close>;
  division by zero does not raise in numpy, it gives \<open>nan\<close> for \<open>0/0\<close> and a signed
  infinity otherwise.
\<close>

definition np_divide :: "real \<Rightarrow> real \<Rightarrow> npfloat" where
  "np_divide a b =
     (if b \<noteq> 0 then f32 (a / b)
      else if a = 0 then NaN
      else if 0 < a then PInf else NInf)"

text \<open>
  \<open>similarity * 100\<close>: under numpy's promotion rules (version 2) the product of a
  \<open>float32\<close> scalar and a Python integer is a \<open>float32\<close> scalar, so the product is
  rounded to \<open>float32\<close> before \<open>float(...)\<close> widens it.
\<close>

fun np_scale :: "npfloat \<Rightarrow> real \<Rightarrow> npfloat" where
  "np_scale (Fin x) c = f32 (x * c)"
| "np_scale PInf c = (if 0 < c then PInf else if c < 0 then NInf else NaN)"
| "np_scale NInf c = (if 0 < c then NInf else if c < 0 then PInf else NaN)"
| "np_scale NaN c = NaN"


fun np_lt :: "npfloat \<Rightarrow> npfloat \<Rightarrow> bool" where
  "np_lt NaN _ = False"
| "np_lt _ NaN = False"
| "np_lt (Fin x) (Fin y) = (x < y)"
| "np_lt (Fin x) PInf = True"
| "np_lt (Fin x) NInf = False"
| "np_lt PInf _ = False"
| "np_lt NInf NInf = False"
| "np_lt NInf _ = True"

fun np_ge :: "npfloat \<Rightarrow> npfloat \<Rightarrow> bool" where
  "np_ge NaN _ = False"
| "np_ge _ NaN = False"
| "np_ge (Fin x) (Fin y) = (y \<le> x)"
| "np_ge PInf _ = True"
| "np_ge _ NInf = True"
| "np_ge (Fin x) PInf = False"
| "np_ge NInf _ = False"

text \<open>
  \<open>np.dot\<close> of two one-dimensional arrays raises \<open>ValueError\<close> when their lengths
  differ; \<open>np.linalg.norm\<close> is the Euclidean norm. Both are taken exactly: the
  rounding inside the sums, which depends on the order the library adds in, is not
  modelled.
\<close>

definition np_dot :: "real list \<Rightarrow> real list \<Rightarrow> error + real" where
  "np_dot xs ys =
     (if length xs = length ys then Inr (sum_list (map2 (*) xs ys)) else Inl ValueError)"

definition np_norm :: "real list \<Rightarrow> real" where
  "np_norm xs = sqrt (sum_list (map (\<lambda>x. x * x) xs))"

text \<open>
  Python values that may occur in a metadata dictionary. \<open>VOther\<close> stands for an
  object of any other type, named by a tag. A dictionary is an association list in
  insertion order.
\<close>

datatype pyval =
    VNone
  | VBool bool
  | VInt int
  | VFloat npfloat
  | VStr string
  | VList "pyval list"
  | VDict "(pyval \<times> pyval) list"
  | VOther string

type_synonym metadata = "(string \<times> pyval) list"

fun dict_set :: "('k \<times> 'v) list \<Rightarrow> 'k \<Rightarrow> 'v \<Rightarrow> ('k \<times> 'v) list" where
  "dict_set [] k v = [(k, v)]"
| "dict_set ((k', v') # d) k v = (if k' = k then (k, v) # d else (k', v') # dict_set d k v)"

fun str_nat :: "nat \<Rightarrow> string" where
  "str_nat n =
     (if n < 10 then [''0123456789'' ! n]
      else str_nat (n div 10) @ [''0123456789'' ! (n mod 10)])"

declare str_nat.simps [simp del]

section \<open>The collaborators\<close>

text \<open>
  The embedding model (sentence-transformers) and the vector store (chromadb) are
  libraries outside the repository. They are parameters of the model: a record of
  functions over a type \<open>'m\<close> of loaded models, \<open>'k\<close> of store clients, \<open>'h\<close> of
  collection handles and \<open>'d\<close> of persistent database contents. A call that
  changes the database returns the new database also when it raises.
\<close>

record add_args =
  a_document :: string
  a_embedding :: "real list option"
  a_metadata :: metadata
  a_id :: string

record hit =
  h_id :: string
  h_text :: string
  h_metadata :: metadata
  h_distance :: real

record ('m, 'k, 'h, 'd) env =
  load_model :: "string \<Rightarrow> error + 'm"
  encode :: "'m \<Rightarrow> string \<Rightarrow> error + real list"
  persistent_client :: "string \<Rightarrow> error + 'k"
  get_or_create_collection :: "'k \<Rightarrow> string \<Rightarrow> metadata \<Rightarrow> 'd \<Rightarrow> (error + 'h) \<times> 'd"
  create_collection :: "'k \<Rightarrow> string \<Rightarrow> metadata \<Rightarrow> 'd \<Rightarrow> (error + 'h) \<times> 'd"
  delete_collection :: "'k \<Rightarrow> string \<Rightarrow> 'd \<Rightarrow> (error + unit) \<times> 'd"
  coll_add :: "'h \<Rightarrow> add_args \<Rightarrow> 'd \<Rightarrow> (error + unit) \<times> 'd"
  coll_query :: "'h \<Rightarrow> real list \<Rightarrow> int \<Rightarrow> 'd \<Rightarrow> error + hit list"
  coll_count :: "'h \<Rightarrow> 'd \<Rightarrow> error + nat"

section \<open>ResumeRAGSystem\<close>

text \<open>
  The attributes of a \<open>ResumeRAGSystem\<close> object. \<open>None\<close> in \<open>initialized\<close> means that
  the attribute has not been assigned yet (reading it raises \<open>AttributeError\<close>); in
  the other fields \<open>None\<close> is Python's \<open>None\<close> or an attribute not assigned yet: a
  method call on either raises \<open>AttributeError\<close>.
\<close>

record ('m, 'k, 'h) rag_system =
  persist_directory :: string
  embedding_model :: "'m option"
  client :: "'k option"
  resume_collection :: "'h option"
  jd_collection :: "'h option"
  knowledge_collection :: "'h option"
  initialized :: "bool option"

definition knowledge_base :: "(string \<times> metadata) list" where
  "knowledge_base =
    [(''Technical skills should be evaluated based on relevance to the job requirements and proficiency level indicated in the resume.'',
      [(''category'', VStr ''skill_evaluation''), (''importance'', VStr ''high'')]),
     (''Experience should be assessed considering both duration and quality of work, including achievements and responsibilities.'',
      [(''category'', VStr ''experience_evaluation''), (''importance'', VStr ''high'')]),
     (''Education requirements vary by role; technical positions may prioritize skills over formal education, while management roles often require specific degrees.'',
      [(''category'', VStr ''education_evaluation''), (''importance'', VStr ''medium'')]),
     (''Red flags include gaps in employment without explanation, inconsistent information, and lack of quantifiable achievements.'',
      [(''category'', VStr ''red_flags''), (''importance'', VStr ''high'')]),
     (''Cultural fit is important and can be assessed through volunteer work, interests, and communication style in the resume.'',
      [(''category'', VStr ''cultural_fit''), (''importance'', VStr ''medium'')]),
     (''Leadership experience is valuable for senior positions and can be demonstrated through project management, team leadership, or mentorship.'',
      [(''category'', VStr ''leadership''), (''importance'', VStr ''medium'')]),
     (''Certifications and professional development show commitment to continuous learning and staying current in the field.'',
      [(''category'', VStr ''certifications''), (''importance'', VStr ''medium'')]),
     (''Industry-specific experience is often more valuable than general experience, especially for specialized roles.'',
      [(''category'', VStr ''industry_experience''), (''importance'', VStr ''high'')]),
     (''Quantifiable achievements with metrics and numbers are more impressive than generic responsibilities.'',
      [(''category'', VStr ''achievements''), (''importance'', VStr ''high'')]),
     (''Technology stack alignment with job requirements is crucial for technical positions.'',
      [(''category'', VStr ''tech_stack''), (''importance'', VStr ''high'')])]"

text \<open>
  The loop \<open>for i, knowledge in enumerate(knowledge_base)\<close> of the seeder: one
  insert per entry, without an embedding, under the id \<open>knowledge_<i>\<close>. The first
  insert that raises ends the loop; what was inserted before stays.
\<close>

fun seed_loop ::
  "('m, 'k, 'h, 'd) env \<Rightarrow> 'h \<Rightarrow> nat \<Rightarrow> (string \<times> metadata) list \<Rightarrow> 'd \<Rightarrow> (error + unit) \<times> 'd"
where
  "seed_loop E h i [] db = (Inr (), db)"
| "seed_loop E h i (kn # rest) db =
     (case coll_add E h
             \<lparr>a_document = fst kn, a_embedding = None, a_metadata = snd kn,
              a_id = ''knowledge_'' @ str_nat i\<rparr> db of
        (Inl e, db') \<Rightarrow> (Inl e, db')
      | (Inr u, db') \<Rightarrow> seed_loop E h (Suc i) rest db')"

text \<open>The body of the \<open>try\<close> in \<open>_initialize_knowledge_base\<close>.\<close>

definition seed_try ::
  "('m, 'k, 'h, 'd) env \<Rightarrow> ('m, 'k, 'h) rag_system \<Rightarrow> 'd \<Rightarrow> (error + unit) \<times> 'd"
where
  "seed_try E s db =
     (case knowledge_collection s of
        None \<Rightarrow> (Inl AttributeError, db)
      | Some h \<Rightarrow>
          (case coll_count E h db of
             Inl e \<Rightarrow> (Inl e, db)
           | Inr n \<Rightarrow> if n = 0 then seed_loop E h 0 knowledge_base db else (Inr (), db)))"

text \<open>
  \<open>_initialize_knowledge_base\<close>: the test \<open>if not self.initialized\<close> stands before
  the \<open>try\<close>, so an \<open>AttributeError\<close> from it leaves the method; every exception of
  the \<open>try\<close> body is printed and swallowed.
\<close>

definition initialize_knowledge_base ::
  "('m, 'k, 'h, 'd) env \<Rightarrow> ('m, 'k, 'h) rag_system \<Rightarrow> 'd \<Rightarrow> (error + unit) \<times> 'd"
where
  "initialize_knowledge_base E s db =
     (case initialized s of
        None \<Rightarrow> (Inl AttributeError, db)
      | Some b \<Rightarrow>
          if \<not> b then (Inr (), db)
          else (case seed_try E s db of (r, db') \<Rightarrow> (Inr (), db')))"

definition resumes_description :: metadata where
  "resumes_description = [(''description'', VStr ''Resume embeddings and metadata'')]"

definition jd_description :: metadata where
  "jd_description = [(''description'', VStr ''Job description embeddings and metadata'')]"

definition knowledge_description :: metadata where
  "knowledge_description = [(''description'', VStr ''HR knowledge base and best practices'')]"

text \<open>
  The body of the \<open>try\<close> in \<open>__init__\<close>. When it is entered only
  \<open>persist_directory\<close> has been assigned; \<open>self.initialized = True\<close> is its last
  statement, after the call of the seeder.
\<close>

definition init_try ::
  "('m, 'k, 'h, 'd) env \<Rightarrow> string \<Rightarrow> 'd \<Rightarrow> (error + ('m, 'k, 'h) rag_system) \<times> 'd"
where
  "init_try E dir db =
     (case load_model E ''all-MiniLM-L6-v2'' of
        Inl e \<Rightarrow> (Inl e, db)
      | Inr m \<Rightarrow>
     (case persistent_client E dir of
        Inl e \<Rightarrow> (Inl e, db)
      | Inr k \<Rightarrow>
     (case get_or_create_collection E k ''resumes'' resumes_description db of
        (Inl e, db1) \<Rightarrow> (Inl e, db1)
      | (Inr hr, db1) \<Rightarrow>
     (case get_or_create_collection E k ''job_descriptions'' jd_description db1 of
        (Inl e, db2) \<Rightarrow> (Inl e, db2)
      | (Inr hj, db2) \<Rightarrow>
     (case get_or_create_collection E k ''screening_knowledge'' knowledge_description db2 of
        (Inl e, db3) \<Rightarrow> (Inl e, db3)
      | (Inr hk, db3) \<Rightarrow>
          (let s = \<lparr>persist_directory = dir, embedding_model = Some m, client = Some k,
                    resume_collection = Some hr, jd_collection = Some hj,
                    knowledge_collection = Some hk, initialized = None\<rparr>
           in case initialize_knowledge_base E s db3 of
                (Inl e, db4) \<Rightarrow> (Inl e, db4)
              | (Inr u, db4) \<Rightarrow> (Inr (s\<lparr>initialized := Some True\<rparr>), db4)))))))"

text \<open>The state the \<open>except\<close> branch of \<open>__init__\<close> leaves: the degraded state.\<close>

definition degraded :: "string \<Rightarrow> ('m, 'k, 'h) rag_system" where
  "degraded dir =
     \<lparr>persist_directory = dir, embedding_model = None, client = None,
      resume_collection = None, jd_collection = None, knowledge_collection = None,
      initialized = Some False\<rparr>"

definition init ::
  "('m, 'k, 'h, 'd) env \<Rightarrow> string \<Rightarrow> 'd \<Rightarrow> ('m, 'k, 'h) rag_system \<times> 'd"
where
  "init E dir db =
     (case init_try E dir db of
        (Inr s, db') \<Rightarrow> (s, db')
      | (Inl e, db') \<Rightarrow> (degraded dir, db'))"


subsection \<open>Reading attributes and sequencing calls that may raise\<close>

fun bind_err :: "error + 'a \<Rightarrow> ('a \<Rightarrow> error + 'b) \<Rightarrow> error + 'b" where
  "bind_err (Inl e) f = Inl e"
| "bind_err (Inr x) f = f x"

text \<open>A method call on an attribute that holds \<open>None\<close> raises \<open>AttributeError\<close>.\<close>

fun attr :: "'a option \<Rightarrow> error + 'a" where
  "attr None = Inl AttributeError"
| "attr (Some x) = Inr x"

subsection \<open>Ingestion\<close>

text \<open>
  \<open>add_resume\<close> and \<open>add_job_description\<close>: outside the ready state a warning is
  printed and nothing is done; otherwise the text is encoded and inserted, and the
  \<open>except\<close> branch prints and re-raises whatever was raised.
\<close>

definition add_resume ::
  "('m, 'k, 'h, 'd) env \<Rightarrow> ('m, 'k, 'h) rag_system \<Rightarrow> 'd \<Rightarrow> string \<Rightarrow> string \<Rightarrow> metadata
     \<Rightarrow> (error + unit) \<times> 'd"
where
  "add_resume E s db resume_id resume_text md =
     (case initialized s of
        None \<Rightarrow> (Inl AttributeError, db)
      | Some b \<Rightarrow>
          if \<not> b then (Inr (), db)
          else
            (case bind_err (attr (embedding_model s)) (\<lambda>m. encode E m resume_text) of
               Inl e \<Rightarrow> (Inl e, db)
             | Inr embedding \<Rightarrow>
                 (case attr (resume_collection s) of
                    Inl e \<Rightarrow> (Inl e, db)
                  | Inr h \<Rightarrow>
                      coll_add E h
                        \<lparr>a_document = resume_text, a_embedding = Some embedding,
                         a_metadata = md, a_id = resume_id\<rparr> db)))"

definition add_job_description ::
  "('m, 'k, 'h, 'd) env \<Rightarrow> ('m, 'k, 'h) rag_system \<Rightarrow> 'd \<Rightarrow> string \<Rightarrow> string \<Rightarrow> metadata
     \<Rightarrow> (error + unit) \<times> 'd"
where
  "add_job_description E s db jd_id jd_text md =
     (case initialized s of
        None \<Rightarrow> (Inl AttributeError, db)
      | Some b \<Rightarrow>
          if \<not> b then (Inr (), db)
          else
            (case bind_err (attr (embedding_model s)) (\<lambda>m. encode E m jd_text) of
               Inl e \<Rightarrow> (Inl e, db)
             | Inr embedding \<Rightarrow>
                 (case attr (jd_collection s) of
                    Inl e \<Rightarrow> (Inl e, db)
                  | Inr h \<Rightarrow>
                      coll_add E h
                        \<lparr>a_document = jd_text, a_embedding = Some embedding,
                         a_metadata = md, a_id = jd_id\<rparr> db)))"

subsection \<open>Retrieval\<close>

text \<open>
  The three searches share one shape: the flag is tested before the \<open>try\<close>; the
  \<open>try\<close> body encodes the query and asks the collection; the \<open>except\<close> branch
  returns the empty list. The list comprehension of the source rebuilds each hit
  from the four parallel result lists, which the \<open>hit\<close> record already is.
\<close>

definition search_similar_resumes ::
  "('m, 'k, 'h, 'd) env \<Rightarrow> ('m, 'k, 'h) rag_system \<Rightarrow> 'd \<Rightarrow> string \<Rightarrow> int \<Rightarrow> error + hit list"
where
  "search_similar_resumes E s db query n_results =
     (case initialized s of
        None \<Rightarrow> Inl AttributeError
      | Some b \<Rightarrow>
          if \<not> b then Inr []
          else
            (case bind_err (attr (embedding_model s)) (\<lambda>m.
                  bind_err (encode E m query) (\<lambda>query_embedding.
                  bind_err (attr (resume_collection s)) (\<lambda>h.
                  coll_query E h query_embedding n_results db))) of
               Inl e \<Rightarrow> Inr []
             | Inr results \<Rightarrow> Inr results))"

definition search_similar_jobs ::
  "('m, 'k, 'h, 'd) env \<Rightarrow> ('m, 'k, 'h) rag_system \<Rightarrow> 'd \<Rightarrow> string \<Rightarrow> int \<Rightarrow> error + hit list"
where
  "search_similar_jobs E s db query n_results =
     (case initialized s of
        None \<Rightarrow> Inl AttributeError
      | Some b \<Rightarrow>
          if \<not> b then Inr []
          else
            (case bind_err (attr (embedding_model s)) (\<lambda>m.
                  bind_err (encode E m query) (\<lambda>query_embedding.
                  bind_err (attr (jd_collection s)) (\<lambda>h.
                  coll_query E h query_embedding n_results db))) of
               Inl e \<Rightarrow> Inr []
             | Inr results \<Rightarrow> Inr results))"

definition get_relevant_knowledge ::
  "('m, 'k, 'h, 'd) env \<Rightarrow> ('m, 'k, 'h) rag_system \<Rightarrow> 'd \<Rightarrow> string \<Rightarrow> int \<Rightarrow> error + string list"
where
  "get_relevant_knowledge E s db query n_results =
     (case initialized s of
        None \<Rightarrow> Inl AttributeError
      | Some b \<Rightarrow>
          if \<not> b then Inr []
          else
            (case bind_err (attr (embedding_model s)) (\<lambda>m.
                  bind_err (encode E m query) (\<lambda>query_embedding.
                  bind_err (attr (knowledge_collection s)) (\<lambda>h.
                  coll_query E h query_embedding n_results db))) of
               Inl e \<Rightarrow> Inr []
             | Inr results \<Rightarrow> Inr (map h_text results)))"

subsection \<open>Semantic matching\<close>

record analysis_context =
  total_resumes_in_db :: nat
  total_jobs_in_db :: nat
  knowledge_items :: nat

record match_result =
  semantic_similarity :: npfloat
  match_score :: npfloat
  relevant_knowledge :: "string list"
  similar_resumes :: "hit list"
  similar_jobs :: "hit list"
  analysis_context :: analysis_context

text \<open>The mapping returned outside the ready state and by the \<open>except\<close> branch.\<close>

definition zero_match :: match_result where
  "zero_match =
     \<lparr>semantic_similarity = Fin 0, match_score = Fin 0, relevant_knowledge = [],
      similar_resumes = [], similar_jobs = [],
      analysis_context =
        \<lparr>total_resumes_in_db = 0, total_jobs_in_db = 0, knowledge_items = 0\<rparr>\<rparr>"

text \<open>
  The body of the \<open>try\<close> in \<open>semantic_resume_match\<close>. The quotient is a numpy
  division, so a zero denominator does not raise.
\<close>

definition match_try ::
  "('m, 'k, 'h, 'd) env \<Rightarrow> ('m, 'k, 'h) rag_system \<Rightarrow> 'd \<Rightarrow> string \<Rightarrow> string
     \<Rightarrow> error + match_result"
where
  "match_try E s db resume_text job_description =
     bind_err (attr (embedding_model s)) (\<lambda>m.
     bind_err (encode E m resume_text) (\<lambda>resume_embedding.
     bind_err (attr (embedding_model s)) (\<lambda>m'.
     bind_err (encode E m' job_description) (\<lambda>jd_embedding.
     bind_err (np_dot resume_embedding jd_embedding) (\<lambda>d.
       (let similarity = np_divide d (np_norm resume_embedding * np_norm jd_embedding) in
     bind_err (get_relevant_knowledge E s db
                 ''resume matching job description skills experience'' 3) (\<lambda>knowledge.
     bind_err (search_similar_resumes E s db job_description 3) (\<lambda>resumes.
     bind_err (search_similar_jobs E s db resume_text 3) (\<lambda>jobs.
     bind_err (bind_err (attr (resume_collection s)) (\<lambda>h. coll_count E h db)) (\<lambda>rc.
     bind_err (bind_err (attr (jd_collection s)) (\<lambda>h. coll_count E h db)) (\<lambda>jc.
     bind_err (bind_err (attr (knowledge_collection s)) (\<lambda>h. coll_count E h db)) (\<lambda>kc.
       Inr \<lparr>semantic_similarity = similarity, match_score = np_scale similarity 100,
            relevant_knowledge = knowledge, similar_resumes = resumes, similar_jobs = jobs,
            analysis_context =
              \<lparr>total_resumes_in_db = rc, total_jobs_in_db = jc,
               knowledge_items = kc\<rparr>\<rparr>))))))))))))"

definition semantic_resume_match ::
  "('m, 'k, 'h, 'd) env \<Rightarrow> ('m, 'k, 'h) rag_system \<Rightarrow> 'd \<Rightarrow> string \<Rightarrow> string
     \<Rightarrow> error + match_result"
where
  "semantic_resume_match E s db resume_text job_description =
     (case initialized s of
        None \<Rightarrow> Inl AttributeError
      | Some b \<Rightarrow>
          if \<not> b then Inr zero_match
          else
            (case match_try E s db resume_text job_description of
               Inl e \<Rightarrow> Inr zero_match
             | Inr r \<Rightarrow> Inr r))"

subsection \<open>Insights\<close>

record database_context =
  total_resumes :: nat
  total_jobs :: nat

record resume_insights =
  skill_insights :: "string list"
  experience_insights :: "string list"
  red_flags_insights :: "string list"
  insight_similar_resumes :: "hit list"
  industry_insights :: "string list"
  database_context :: database_context

definition zero_insights :: resume_insights where
  "zero_insights =
     \<lparr>skill_insights = [], experience_insights = [], red_flags_insights = [],
      insight_similar_resumes = [], industry_insights = [],
      database_context = \<lparr>total_resumes = 0, total_jobs = 0\<rparr>\<rparr>"

definition insights_try ::
  "('m, 'k, 'h, 'd) env \<Rightarrow> ('m, 'k, 'h) rag_system \<Rightarrow> 'd \<Rightarrow> string \<Rightarrow> error + resume_insights"
where
  "insights_try E s db resume_text =
     bind_err (get_relevant_knowledge E s db ''technical skills evaluation'' 2) (\<lambda>skill.
     bind_err (get_relevant_knowledge E s db ''experience assessment'' 2) (\<lambda>experience.
     bind_err (get_relevant_knowledge E s db ''red flags resume'' 2) (\<lambda>red_flags.
     bind_err (search_similar_resumes E s db resume_text 3) (\<lambda>resumes.
     bind_err (get_relevant_knowledge E s db ''industry experience requirements'' 1) (\<lambda>industry.
     bind_err (bind_err (attr (resume_collection s)) (\<lambda>h. coll_count E h db)) (\<lambda>rc.
     bind_err (bind_err (attr (jd_collection s)) (\<lambda>h. coll_count E h db)) (\<lambda>jc.
       Inr \<lparr>skill_insights = skill, experience_insights = experience,
            red_flags_insights = red_flags, insight_similar_resumes = resumes,
            industry_insights = industry,
            database_context = \<lparr>total_resumes = rc, total_jobs = jc\<rparr>\<rparr>)))))))"

definition get_resume_insights ::
  "('m, 'k, 'h, 'd) env \<Rightarrow> ('m, 'k, 'h) rag_system \<Rightarrow> 'd \<Rightarrow> string \<Rightarrow> error + resume_insights"
where
  "get_resume_insights E s db resume_text =
     (case initialized s of
        None \<Rightarrow> Inl AttributeError
      | Some b \<Rightarrow>
          if \<not> b then Inr zero_insights
          else
            (case insights_try E s db resume_text of
               Inl e \<Rightarrow> Inr zero_insights
             | Inr r \<Rightarrow> Inr r))"

subsection \<open>Recommendations and batch ranking\<close>

text \<open>
  \<open>_generate_recommendations\<close>: the score line by the \<open>if\<close>/\<open>elif\<close>/\<open>else\<close> chain on
  \<open>match_score\<close> (both tests are \<open><\<close>, so a \<open>nan\<close> score reaches the \<open>else\<close>), then
  one line for each insight list that is not empty.
\<close>

definition generate_recommendations :: "match_result \<Rightarrow> resume_insights \<Rightarrow> string list" where
  "generate_recommendations match_result insights =
     (if np_lt (match_score match_result) (Fin 30)
        then [''Low match score - consider if this role is the right fit'']
      else if np_lt (match_score match_result) (Fin 60)
        then [''Moderate match - review specific skill gaps'']
      else [''Strong match - proceed with detailed evaluation''])
     @ (if skill_insights insights \<noteq> []
        then [''Focus on technical skill alignment with role requirements''] else [])
     @ (if experience_insights insights \<noteq> []
        then [''Evaluate experience quality and relevance to position''] else [])
     @ (if red_flags_insights insights \<noteq> []
        then [''Review for potential red flags or inconsistencies''] else [])"

record resume =
  r_id :: string
  r_text :: string
  r_metadata :: metadata

record analysis_result =
  resume_id :: string
  resume_metadata :: metadata
  semantic_match :: match_result
  insights :: resume_insights
  overall_score :: npfloat
  recommendations :: "string list"

text \<open>
  \<open>results.sort(key=..., reverse=True)\<close>. Python's sort is stable, also with
  \<open>reverse=True\<close>, and compares keys with \<open><\<close> only. On keys that \<open><\<close> orders
  totally the result is the one stable descending arrangement, which this insertion
  sort computes: each element, taken from the right, goes in front of the first
  element that is not greater than it.
\<close>

fun insert_desc :: "('a \<Rightarrow> npfloat) \<Rightarrow> 'a \<Rightarrow> 'a list \<Rightarrow> 'a list" where
  "insert_desc key x [] = [x]"
| "insert_desc key x (y # ys) =
     (if np_lt (key x) (key y) then y # insert_desc key x ys else x # y # ys)"

definition sort_reverse :: "('a \<Rightarrow> npfloat) \<Rightarrow> 'a list \<Rightarrow> 'a list" where
  "sort_reverse key xs = foldr (insert_desc key) xs []"

text \<open>The loop of \<open>batch_semantic_analysis\<close>: one result per resume, in input order.\<close>

fun analyse_all ::
  "('m, 'k, 'h, 'd) env \<Rightarrow> ('m, 'k, 'h) rag_system \<Rightarrow> 'd \<Rightarrow> resume list \<Rightarrow> string
     \<Rightarrow> error + analysis_result list"
where
  "analyse_all E s db [] job_description = Inr []"
| "analyse_all E s db (r # rs) job_description =
     bind_err (semantic_resume_match E s db (r_text r) job_description) (\<lambda>match_result.
     bind_err (get_resume_insights E s db (r_text r)) (\<lambda>ins.
     bind_err (analyse_all E s db rs job_description) (\<lambda>rest.
       Inr (\<lparr>resume_id = r_id r, resume_metadata = r_metadata r,
             semantic_match = match_result, insights = ins,
             overall_score = match_score match_result,
             recommendations = generate_recommendations match_result ins\<rparr> # rest))))"

definition batch_semantic_analysis ::
  "('m, 'k, 'h, 'd) env \<Rightarrow> ('m, 'k, 'h) rag_system \<Rightarrow> 'd \<Rightarrow> resume list \<Rightarrow> string
     \<Rightarrow> error + analysis_result list"
where
  "batch_semantic_analysis E s db resumes job_description =
     bind_err (analyse_all E s db resumes job_description) (\<lambda>results.
       Inr (sort_reverse overall_score results))"

subsection \<open>Statistics and reset\<close>

record database_stats =
  resumes_count :: nat
  jobs_count :: nat
  knowledge_count :: nat
  total_embeddings :: nat
  status :: string

definition zero_stats :: "string \<Rightarrow> database_stats" where
  "zero_stats st =
     \<lparr>resumes_count = 0, jobs_count = 0, knowledge_count = 0, total_embeddings = 0,
      status = st\<rparr>"

text \<open>The dictionary display of \<open>get_database_stats\<close> calls \<open>count()\<close> six times.\<close>

definition stats_try ::
  "('m, 'k, 'h, 'd) env \<Rightarrow> ('m, 'k, 'h) rag_system \<Rightarrow> 'd \<Rightarrow> error + database_stats"
where
  "stats_try E s db =
     bind_err (bind_err (attr (resume_collection s)) (\<lambda>h. coll_count E h db)) (\<lambda>rc.
     bind_err (bind_err (attr (jd_collection s)) (\<lambda>h. coll_count E h db)) (\<lambda>jc.
     bind_err (bind_err (attr (knowledge_collection s)) (\<lambda>h. coll_count E h db)) (\<lambda>kc.
     bind_err (bind_err (attr (resume_collection s)) (\<lambda>h. coll_count E h db)) (\<lambda>rc'.
     bind_err (bind_err (attr (jd_collection s)) (\<lambda>h. coll_count E h db)) (\<lambda>jc'.
     bind_err (bind_err (attr (knowledge_collection s)) (\<lambda>h. coll_count E h db)) (\<lambda>kc'.
       Inr \<lparr>resumes_count = rc, jobs_count = jc, knowledge_count = kc,
            total_embeddings = rc' + jc' + kc', status = ''initialized''\<rparr>))))))"

definition get_database_stats ::
  "('m, 'k, 'h, 'd) env \<Rightarrow> ('m, 'k, 'h) rag_system \<Rightarrow> 'd \<Rightarrow> error + database_stats"
where
  "get_database_stats E s db =
     (case initialized s of
        None \<Rightarrow> Inl AttributeError
      | Some b \<Rightarrow>
          if \<not> b then Inr (zero_stats ''not_initialized'')
          else
            (case stats_try E s db of
               Inl e \<Rightarrow> Inr (zero_stats ''error'')
             | Inr r \<Rightarrow> Inr r))"

text \<open>
  \<open>clear_database\<close> returns the outcome, the object and the database: the three
  handles are reassigned one by one, so an exception leaves those assigned so far.
\<close>

definition clear_try ::
  "('m, 'k, 'h, 'd) env \<Rightarrow> ('m, 'k, 'h) rag_system \<Rightarrow> 'd
     \<Rightarrow> (error + unit) \<times> ('m, 'k, 'h) rag_system \<times> 'd"
where
  "clear_try E s db =
     (case attr (client s) of
        Inl e \<Rightarrow> (Inl e, s, db)
      | Inr k \<Rightarrow>
     (case delete_collection E k ''resumes'' db of
        (Inl e, db1) \<Rightarrow> (Inl e, s, db1)
      | (Inr u1, db1) \<Rightarrow>
     (case delete_collection E k ''job_descriptions'' db1 of
        (Inl e, db2) \<Rightarrow> (Inl e, s, db2)
      | (Inr u2, db2) \<Rightarrow>
     (case delete_collection E k ''screening_knowledge'' db2 of
        (Inl e, db3) \<Rightarrow> (Inl e, s, db3)
      | (Inr u3, db3) \<Rightarrow>
     (case create_collection E k ''resumes'' resumes_description db3 of
        (Inl e, db4) \<Rightarrow> (Inl e, s, db4)
      | (Inr hr, db4) \<Rightarrow>
     (case create_collection E k ''job_descriptions'' jd_description db4 of
        (Inl e, db5) \<Rightarrow> (Inl e, s\<lparr>resume_collection := Some hr\<rparr>, db5)
      | (Inr hj, db5) \<Rightarrow>
     (case create_collection E k ''screening_knowledge'' knowledge_description db5 of
        (Inl e, db6) \<Rightarrow>
          (Inl e, s\<lparr>resume_collection := Some hr, jd_collection := Some hj\<rparr>, db6)
      | (Inr hk, db6) \<Rightarrow>
          (let s' = s\<lparr>resume_collection := Some hr, jd_collection := Some hj,
                      knowledge_collection := Some hk\<rparr>
           in case initialize_knowledge_base E s' db6 of
                (r, db7) \<Rightarrow> (r, s', db7)))))))))"

definition clear_database ::
  "('m, 'k, 'h, 'd) env \<Rightarrow> ('m, 'k, 'h) rag_system \<Rightarrow> 'd
     \<Rightarrow> (error + unit) \<times> ('m, 'k, 'h) rag_system \<times> 'd"
where
  "clear_database E s db =
     (case initialized s of
        None \<Rightarrow> (Inl AttributeError, s, db)
      | Some b \<Rightarrow> if \<not> b then (Inr (), s, db) else clear_try E s db)"

section \<open>Metadata validation (app.py)\<close>

text \<open>
  \<open>isinstance(value, (str, int, float, bool, type(None)))\<close>, and the builtin \<open>str\<close>
  as a parameter \<open>str_of\<close>. The loop assigns \<open>valid_metadata[key]\<close> for each item
  of the input in order.
\<close>

fun is_scalar :: "pyval \<Rightarrow> bool" where
  "is_scalar VNone = True"
| "is_scalar (VBool b) = True"
| "is_scalar (VInt i) = True"
| "is_scalar (VFloat x) = True"
| "is_scalar (VStr t) = True"
| "is_scalar (VList vs) = False"
| "is_scalar (VDict kvs) = False"
| "is_scalar (VOther t) = False"

definition clean_value :: "(pyval \<Rightarrow> string) \<Rightarrow> pyval \<Rightarrow> pyval" where
  "clean_value str_of v =
     (if is_scalar v then v
      else (case v of
              VDict kvs \<Rightarrow> VStr (str_of v)
            | VList vs \<Rightarrow> VStr (str_of v)
            | _ \<Rightarrow> VStr (str_of v)))"

fun validate_loop :: "(pyval \<Rightarrow> string) \<Rightarrow> metadata \<Rightarrow> metadata \<Rightarrow> metadata" where
  "validate_loop str_of [] valid_metadata = valid_metadata"
| "validate_loop str_of ((k, v) # rest) valid_metadata =
     validate_loop str_of rest (dict_set valid_metadata k (clean_value str_of v))"

definition validate_metadata_for_chromadb :: "(pyval \<Rightarrow> string) \<Rightarrow> metadata \<Rightarrow> metadata" where
  "validate_metadata_for_chromadb str_of metadata_dict = validate_loop str_of metadata_dict []"

section \<open>A vector store after the specification\<close>

text \<open>
  Modelled from the spec: the vector store is the chromadb library, which is not
  part of the repository. The definitions of this section follow the contract of
  the specification's section 4.2: a database maps collection names to the list of
  stored records, a handle is the collection's name.
\<close>

record stored =
  s_id :: string
  s_text :: string
  s_embedding :: "real list"
  s_metadata :: metadata

type_synonym spec_db = "string \<rightharpoonup> stored list"

text \<open>
  Modelled from the spec: "collections are created once at system startup
  (idempotent: reuse existing collection if already created)".
\<close>

definition spec_get_or_create ::
  "unit \<Rightarrow> string \<Rightarrow> metadata \<Rightarrow> spec_db \<Rightarrow> (error + string) \<times> spec_db" where
  "spec_get_or_create k name md db =
     (case db name of
        Some docs \<Rightarrow> (Inr name, db)
      | None \<Rightarrow> (Inr name, db(name \<mapsto> [])))"

text \<open>Modelled from the spec: creating a collection; a name in use is an error.\<close>

definition spec_create ::
  "unit \<Rightarrow> string \<Rightarrow> metadata \<Rightarrow> spec_db \<Rightarrow> (error + string) \<times> spec_db" where
  "spec_create k name md db =
     (case db name of
        Some docs \<Rightarrow> (Inl CollectionExistsError, db)
      | None \<Rightarrow> (Inr name, db(name \<mapsto> [])))"

text \<open>Modelled from the spec: "delete-collection by name".\<close>

definition spec_delete :: "unit \<Rightarrow> string \<Rightarrow> spec_db \<Rightarrow> (error + unit) \<times> spec_db" where
  "spec_delete k name db =
     (case db name of
        None \<Rightarrow> (Inl CollectionNotFoundError, db)
      | Some docs \<Rightarrow> (Inr (), db(name := None)))"

text \<open>
  Modelled from the spec: insert "fails if id already exists in that collection, or
  if metadata contains a non-scalar value that was not pre-flattened". A record
  inserted without an embedding gets the one the store computes itself (\<open>store_embed\<close>).
\<close>

definition spec_add ::
  "(string \<Rightarrow> real list) \<Rightarrow> string \<Rightarrow> add_args \<Rightarrow> spec_db \<Rightarrow> (error + unit) \<times> spec_db" where
  "spec_add store_embed h a db =
     (case db h of
        None \<Rightarrow> (Inl CollectionNotFoundError, db)
      | Some docs \<Rightarrow>
          if a_id a \<in> set (map s_id docs) then (Inl DuplicateIDError, db)
          else if \<not> list_all (\<lambda>kv. is_scalar (snd kv)) (a_metadata a)
            then (Inl InvalidMetadataError, db)
          else (Inr (),
                db(h \<mapsto> docs @
                  [\<lparr>s_id = a_id a, s_text = a_document a,
                    s_embedding = (case a_embedding a of
                                     Some e \<Rightarrow> e | None \<Rightarrow> store_embed (a_document a)),
                    s_metadata = a_metadata a\<rparr>])))"

text \<open>
  Modelled from the spec: query "returns up to k nearest records ranked by
  ascending distance", fewer when the collection is smaller, none when it is empty;
  the distance function \<open>distance\<close> is the store's configuration.
\<close>

definition spec_query ::
  "(real list \<Rightarrow> real list \<Rightarrow> real) \<Rightarrow> string \<Rightarrow> real list \<Rightarrow> int \<Rightarrow> spec_db
     \<Rightarrow> error + hit list" where
  "spec_query distance h q k db =
     (case db h of
        None \<Rightarrow> Inl CollectionNotFoundError
      | Some docs \<Rightarrow>
          Inr (map (\<lambda>d. \<lparr>h_id = s_id d, h_text = s_text d, h_metadata = s_metadata d,
                          h_distance = distance q (s_embedding d)\<rparr>)
                 (take (nat k) (sort_key (\<lambda>d. distance q (s_embedding d)) docs))))"

text \<open>Modelled from the spec: count is the "exact number of stored records".\<close>

definition spec_count :: "string \<Rightarrow> spec_db \<Rightarrow> error + nat" where
  "spec_count h db =
     (case db h of None \<Rightarrow> Inl CollectionNotFoundError | Some docs \<Rightarrow> Inr (length docs))"

text \<open>
  Modelled from the spec: the collaborators when nothing fails at startup: the
  model loads, \<open>encode\<close> is the pure function \<open>enc\<close> of the text, the client opens.
\<close>

definition spec_env ::
  "(string \<Rightarrow> real list) \<Rightarrow> (real list \<Rightarrow> real list \<Rightarrow> real)
     \<Rightarrow> (unit, unit, string, spec_db) env" where
  "spec_env enc distance =
     \<lparr>load_model = (\<lambda>name. Inr ()),
      encode = (\<lambda>m t. Inr (enc t)),
      persistent_client = (\<lambda>dir. Inr ()),
      get_or_create_collection = spec_get_or_create,
      create_collection = spec_create,
      delete_collection = spec_delete,
      coll_add = spec_add enc,
      coll_query = spec_query distance,
      coll_count = spec_count\<rparr>"

section \<open>Concrete inputs\<close>

text \<open>
  The inputs at which the theorems below are evaluated: collaborators that never fail at
  startup, a state in which the ready flag is set over three empty collections, an
  encoder with three values (a zero vector and two orthogonal unit vectors), one that
  gives the vectors (3, 4) and (1, 0), and small lists of resumes.
\<close>

definition unit_enc :: "string \<Rightarrow> real list" where "unit_enc t = [1]"

definition zero_dist :: "real list \<Rightarrow> real list \<Rightarrow> real" where "zero_dist a b = 0"

definition axis_enc :: "string \<Rightarrow> real list" where
  "axis_enc t = (if t = ''zero'' then [0, 0] else if t = ''orth'' then [0, 1] else [1, 0])"


definition ready_state :: "(unit, unit, string) rag_system" where
  "ready_state =
     \<lparr>persist_directory = ''rag_database'', embedding_model = Some (), client = Some (),
      resume_collection = Some ''resumes'', jd_collection = Some ''job_descriptions'',
      knowledge_collection = Some ''screening_knowledge'', initialized = Some True\<rparr>"

definition fresh_db :: spec_db where
  "fresh_db = [''resumes'' \<mapsto> [], ''job_descriptions'' \<mapsto> [], ''screening_knowledge'' \<mapsto> []]"

definition three_resumes :: "resume list" where
  "three_resumes =
     [\<lparr>r_id = ''r1'', r_text = ''orth'', r_metadata = []\<rparr>,
      \<lparr>r_id = ''r2'', r_text = ''zero'', r_metadata = []\<rparr>,
      \<lparr>r_id = ''r3'', r_text = ''same'', r_metadata = []\<rparr>]"

definition two_resumes :: "resume list" where
  "two_resumes =
     [\<lparr>r_id = ''r1'', r_text = ''orth'', r_metadata = [(''filename'', VStr ''a.pdf'')]\<rparr>,
      \<lparr>r_id = ''r3'', r_text = ''same'', r_metadata = [(''filename'', VStr ''b.pdf'')]\<rparr>]"

definition stored_cv :: stored where
  "stored_cv = \<lparr>s_id = ''cv.pdf'', s_text = ''text'', s_embedding = [1], s_metadata = []\<rparr>"

definition tag_str :: "pyval \<Rightarrow> string" where
  "tag_str v = (case v of VList vs \<Rightarrow> ''[...]'' | VDict kvs \<Rightarrow> ''{...}'' | _ \<Rightarrow> ''<object>'')"

text \<open>
  The result \<open>batch_semantic_analysis\<close> builds for one resume outside the ready state: the
  two zero-value mappings, score \<open>0.0\<close>, and the one recommendation the score \<open>0.0\<close>
  selects.
\<close>

definition degraded_result :: "resume \<Rightarrow> analysis_result" where
  "degraded_result r = \<lparr>resume_id = r_id r, resume_metadata = r_metadata r,
             semantic_match = zero_match, insights = zero_insights,
             overall_score = Fin 0,
             recommendations = [''Low match score - consider if this role is the right fit'']\<rparr>"

text \<open>
  The three collection counts all succeed: the \<open>try\<close> body of \<open>get_database_stats\<close>
  runs to its end.
\<close>

definition counts_succeed ::
  "('m, 'k, 'h, 'd) env \<Rightarrow> ('m, 'k, 'h) rag_system \<Rightarrow> 'd \<Rightarrow> bool" where
  "counts_succeed E s db = (case stats_try E s db of Inl e \<Rightarrow> False | Inr r \<Rightarrow> True)"

section \<open>Auxiliary lemmas\<close>

subsection \<open>Rounding\<close>



lemma round_half_even_of_int: "round_half_even (of_int n) = n"
  by (simp add: round_half_even_def)

lemma round_binary_eval:
  assumes "x \<noteq> 0" "2 powr of_int e0 \<le> \<bar>x\<bar>" "\<bar>x\<bar> < 2 powr of_int (e0 + 1)"
    and "q = 2 powr of_int (max e0 emin - int p + 1)"
    and "round_half_even (x / q) = n"
    and "\<bar>of_int n * q\<bar> < 2 powr of_int (emax + 1)"
  shows "round_binary p emin emax x = Fin (of_int n * q)"
proof -
  have "\<lfloor>log 2 \<bar>x\<bar>\<rfloor> = e0"
    using assms(1-3) by (subst floor_log_eq_powr_iff) (auto simp: add.commute)
  then show ?thesis
    using assms(1,4,5,6) by (simp add: round_binary_def Let_def)
qed

lemma f32_zero: "f32 0 = Fin 0"
  by (simp add: f32_def round_binary_def)

lemma f32_one: "f32 1 = Fin 1"
  using round_binary_eval [of 1 0 "2 powr of_int (- 23)" "- 126" 24 8388608 127]
  by (simp add: f32_def powr_minus round_half_even_of_int [of 8388608, simplified])

lemma f32_hundred: "f32 100 = Fin 100"
  using round_binary_eval [of 100 6 "2 powr of_int (- 17)" "- 126" 24 13107200 127]
  by (simp add: f32_def powr_minus round_half_even_of_int [of 13107200, simplified])






subsection \<open>Sequencing\<close>

lemma bind_err_split:
  "P (bind_err x f) = ((\<forall>e. x = Inl e \<longrightarrow> P (Inl e)) \<and> (\<forall>v. x = Inr v \<longrightarrow> P (f v)))"
  by (cases x) simp_all

lemma bind_err_Inr_iff: "bind_err x f = Inr r \<longleftrightarrow> (\<exists>v. x = Inr v \<and> f v = Inr r)"
  by (cases x) simp_all

subsection \<open>Reads return a value whenever the flag is set\<close>

lemma search_similar_resumes_total:
  "initialized s = Some b \<Longrightarrow> \<exists>r. search_similar_resumes E s db q n = Inr r"
  by (simp add: search_similar_resumes_def split: sum.splits)

lemma search_similar_jobs_total:
  "initialized s = Some b \<Longrightarrow> \<exists>r. search_similar_jobs E s db q n = Inr r"
  by (simp add: search_similar_jobs_def split: sum.splits)

lemma get_relevant_knowledge_total:
  "initialized s = Some b \<Longrightarrow> \<exists>r. get_relevant_knowledge E s db q n = Inr r"
  by (simp add: get_relevant_knowledge_def split: sum.splits)

lemma semantic_resume_match_total:
  "initialized s = Some b \<Longrightarrow> \<exists>r. semantic_resume_match E s db t jd = Inr r"
  by (simp add: semantic_resume_match_def split: sum.splits)

lemma get_resume_insights_total:
  "initialized s = Some b \<Longrightarrow> \<exists>r. get_resume_insights E s db t = Inr r"
  by (simp add: get_resume_insights_def split: sum.splits)

lemma get_database_stats_total:
  "initialized s = Some b \<Longrightarrow> \<exists>r. get_database_stats E s db = Inr r"
  by (simp add: get_database_stats_def split: sum.splits)

subsection \<open>The sort\<close>

lemma mset_insert_desc: "mset (insert_desc key x ys) = add_mset x (mset ys)"
  by (induction ys) simp_all

lemma mset_sort_reverse: "mset (sort_reverse key xs) = mset xs"
  by (induction xs) (simp_all add: sort_reverse_def mset_insert_desc)

lemma set_insert_desc: "set (insert_desc key x ys) = insert x (set ys)"
  by (induction ys) auto

lemma set_sort_reverse: "set (sort_reverse key xs) = set xs"
  using mset_sort_reverse [of key xs] by (metis set_mset_mset)

lemma np_lt_ge: "np_lt a b \<Longrightarrow> np_ge b a"
  by (cases a; cases b) simp_all

lemma np_not_lt_ge: "a \<noteq> NaN \<Longrightarrow> b \<noteq> NaN \<Longrightarrow> \<not> np_lt a b \<Longrightarrow> np_ge a b"
  by (cases a; cases b) simp_all

lemma np_ge_trans: "np_ge a b \<Longrightarrow> np_ge b c \<Longrightarrow> np_ge a c"
  by (cases a; cases b; cases c) simp_all

lemma np_lt_irrefl: "\<not> np_lt a a"
  by (cases a) simp_all

lemma sorted_insert_desc:
  assumes "sorted_wrt (\<lambda>a b. np_ge (key a) (key b)) ys"
    and "key x \<noteq> NaN" and "\<forall>y \<in> set ys. key y \<noteq> NaN"
  shows "sorted_wrt (\<lambda>a b. np_ge (key a) (key b)) (insert_desc key x ys)"
  using assms
proof (induction ys)
  case Nil
  show ?case by simp
next
  case (Cons y ys)
  show ?case
  proof (cases "np_lt (key x) (key y)")
    case True
    have "sorted_wrt (\<lambda>a b. np_ge (key a) (key b)) (insert_desc key x ys)"
      using Cons by simp
    moreover have "np_ge (key y) (key x)" using True by (rule np_lt_ge)
    ultimately show ?thesis using True Cons.prems by (simp add: set_insert_desc)
  next
    case False
    have xy: "np_ge (key x) (key y)" using False Cons.prems by (simp add: np_not_lt_ge)
    have "\<forall>z \<in> set ys. np_ge (key x) (key z)"
      using xy Cons.prems by (auto intro: np_ge_trans)
    then show ?thesis using False xy Cons.prems by simp
  qed
qed

lemma sorted_sort_reverse:
  "\<forall>x \<in> set xs. key x \<noteq> NaN \<Longrightarrow>
   sorted_wrt (\<lambda>a b. np_ge (key a) (key b)) (sort_reverse key xs)"
proof (induction xs)
  case Nil
  show ?case by (simp add: sort_reverse_def)
next
  case (Cons x xs)
  have ih: "sorted_wrt (\<lambda>a b. np_ge (key a) (key b)) (sort_reverse key xs)"
    using Cons by simp
  have "sorted_wrt (\<lambda>a b. np_ge (key a) (key b)) (insert_desc key x (sort_reverse key xs))"
    using ih Cons.prems by (intro sorted_insert_desc) (simp_all add: set_sort_reverse)
  then show ?case by (simp add: sort_reverse_def)
qed

lemma filter_insert_desc:
  "filter (\<lambda>r. key r = v) (insert_desc key x ys) =
     (if key x = v then x # filter (\<lambda>r. key r = v) ys else filter (\<lambda>r. key r = v) ys)"
  by (induction ys) (auto simp: np_lt_irrefl)

lemma filter_sort_reverse:
  "filter (\<lambda>r. key r = v) (sort_reverse key xs) = filter (\<lambda>r. key r = v) xs"
  by (induction xs) (simp_all add: sort_reverse_def filter_insert_desc)

lemma sort_reverse_no_lt:
  "(\<And>x y. x \<in> set xs \<Longrightarrow> y \<in> set xs \<Longrightarrow> \<not> np_lt (key x) (key y)) \<Longrightarrow> sort_reverse key xs = xs"
proof (induction xs)
  case Nil
  show ?case by (simp add: sort_reverse_def)
next
  case (Cons a xs)
  have ih: "sort_reverse key xs = xs" using Cons by simp
  have "insert_desc key a xs = a # xs"
    using Cons.prems by (cases xs) auto
  then show ?case using ih by (simp add: sort_reverse_def)
qed

subsection \<open>Vectors\<close>

lemma zero_dot_left: "\<forall>x \<in> set xs. x = (0::real) \<Longrightarrow> sum_list (map2 (*) xs ys) = 0"
  by (induction xs arbitrary: ys) (auto simp: zip_Cons1 split: list.splits)

lemma zero_dot_right: "\<forall>y \<in> set ys. y = (0::real) \<Longrightarrow> sum_list (map2 (*) xs ys) = 0"
  by (induction ys arbitrary: xs) (auto simp: zip_Cons split: list.splits)

lemma zero_norm: "\<forall>x \<in> set xs. x = (0::real) \<Longrightarrow> np_norm xs = 0"
proof -
  assume a: "\<forall>x \<in> set xs. x = (0::real)"
  then have "sum_list (map (\<lambda>x. x * x) xs) = 0" by (induction xs) simp_all
  then show ?thesis by (simp add: np_norm_def)
qed

lemma dot_commute: "sum_list (map2 (*) xs ys) = sum_list (map2 (*) ys (xs::real list))"
  by (induction xs arbitrary: ys) (auto simp: zip_Cons1 zip_Cons mult.commute split: list.splits)

lemma np_dot_commute: "np_dot xs ys = np_dot ys xs"
  using dot_commute [of xs ys] by (auto simp add: np_dot_def)

subsection \<open>The constructor and the seeder\<close>

lemma init_always_degraded: "fst (init E dir db) = degraded dir"
  by (simp add: init_def init_try_def initialize_knowledge_base_def Let_def
           split: sum.splits prod.splits)

lemma str_nat_digit: "n < 10 \<Longrightarrow> str_nat n = [''0123456789'' ! n]"
  by (simp add: str_nat.simps)

lemma seed_ready_from_empty:
  assumes "initialized s = Some True" "knowledge_collection s = Some h" "db h = Some []"
  shows "fst (initialize_knowledge_base (spec_env enc d) s db) = Inr ()
         \<and> spec_count h (snd (initialize_knowledge_base (spec_env enc d) s db)) = Inr 10
         \<and> map_option (map s_text) (snd (initialize_knowledge_base (spec_env enc d) s db) h)
               = Some (map fst knowledge_base)
         \<and> map_option (map s_id) (snd (initialize_knowledge_base (spec_env enc d) s db) h)
               = Some [''knowledge_0'', ''knowledge_1'', ''knowledge_2'', ''knowledge_3'',
                    ''knowledge_4'', ''knowledge_5'', ''knowledge_6'', ''knowledge_7'',
                    ''knowledge_8'', ''knowledge_9'']"
  using assms
  by (simp add: initialize_knowledge_base_def seed_try_def spec_env_def spec_count_def
      spec_add_def knowledge_base_def str_nat_digit)

lemma seed_only_when_empty:
  assumes "initialized s = Some b" "knowledge_collection s = Some h"
    "coll_count E h db = Inr n" "n \<noteq> 0"
  shows "initialize_knowledge_base E s db = (Inr (), db)"
  using assms by (simp add: initialize_knowledge_base_def seed_try_def)

lemma seed_ready_idempotent:
  assumes "initialized s = Some True" "knowledge_collection s = Some h" "db h = Some []"
  shows "initialize_knowledge_base (spec_env enc d) s
           (snd (initialize_knowledge_base (spec_env enc d) s db))
         = (Inr (), snd (initialize_knowledge_base (spec_env enc d) s db))"
proof -
  have "coll_count (spec_env enc d) h (snd (initialize_knowledge_base (spec_env enc d) s db))
          = Inr 10"
    using seed_ready_from_empty [of s h db enc d] assms by (simp add: spec_env_def)
  then show ?thesis
    using seed_only_when_empty [of s True h "spec_env enc d"
        "snd (initialize_knowledge_base (spec_env enc d) s db)" 10] assms(1,2)
    by simp
qed

subsection \<open>Matching and batch analysis\<close>

lemmas eval_defs = semantic_resume_match_def match_try_def get_resume_insights_def insights_try_def
  get_relevant_knowledge_def search_similar_resumes_def search_similar_jobs_def
  spec_env_def spec_query_def spec_count_def ready_state_def fresh_db_def axis_enc_def
  np_dot_def np_norm_def np_divide_def Let_def f32_zero f32_one f32_hundred

lemma counts_fresh: "counts_succeed (spec_env axis_enc zero_dist) ready_state fresh_db"
  by (simp add: counts_succeed_def stats_try_def spec_env_def spec_count_def ready_state_def fresh_db_def)

lemma counts_succeed_stats: "counts_succeed E s db \<Longrightarrow> \<exists>st. stats_try E s db = Inr st"
  by (simp add: counts_succeed_def split: sum.splits)

lemma match_try_similarity:
  assumes "initialized s = Some True"
  shows "map_sum id semantic_similarity (match_try E s db a b) =
     bind_err (attr (embedding_model s)) (\<lambda>m.
     bind_err (encode E m a) (\<lambda>ea.
     bind_err (encode E m b) (\<lambda>eb.
     bind_err (np_dot ea eb) (\<lambda>d.
     bind_err (stats_try E s db) (\<lambda>st.
       Inr (np_divide d (np_norm ea * np_norm eb)))))))"
proof -
  obtain ks where ks: "get_relevant_knowledge E s db
                 ''resume matching job description skills experience'' 3 = Inr ks"
    using get_relevant_knowledge_total [OF assms, of E db] by blast
  obtain rs where rs: "search_similar_resumes E s db b 3 = Inr rs"
    using search_similar_resumes_total [OF assms, of E db] by blast
  obtain js where js: "search_similar_jobs E s db a 3 = Inr js"
    using search_similar_jobs_total [OF assms, of E db] by blast
  show ?thesis
    by (auto simp: match_try_def stats_try_def Let_def ks rs js split: bind_err_split)
qed

lemma match_try_scaled:
  "match_try E s db a b = Inr r \<Longrightarrow> match_score r = np_scale (semantic_similarity r) 100"
  by (auto simp: match_try_def Let_def bind_err_Inr_iff)



lemma match_try_Inr_value:
  assumes "initialized s = Some True" "embedding_model s = Some m"
    "encode E m a = Inr ea" "encode E m b = Inr eb" "length ea = length eb"
    "counts_succeed E s db"
  shows "\<exists>r. match_try E s db a b = Inr r
           \<and> semantic_similarity r =
               np_divide (sum_list (map2 (*) ea eb)) (np_norm ea * np_norm eb)"
proof -
  obtain st where st: "stats_try E s db = Inr st"
    using counts_succeed_stats [OF assms(6)] by blast
  have "map_sum id semantic_similarity (match_try E s db a b) =
          Inr (np_divide (sum_list (map2 (*) ea eb)) (np_norm ea * np_norm eb))"
    by (simp add: match_try_similarity [OF assms(1)] assms st np_dot_def)
  then show ?thesis by (cases "match_try E s db a b") auto
qed

lemma match_try_Inl_counts:
  assumes "initialized s = Some True" "\<not> counts_succeed E s db"
  shows "\<exists>e. match_try E s db a b = Inl e"
proof -
  obtain e where st: "stats_try E s db = Inl e"
    using assms(2) by (auto simp: counts_succeed_def split: sum.splits)
  have "\<exists>e. map_sum id semantic_similarity (match_try E s db a b) = Inl e"
    by (simp add: match_try_similarity [OF assms(1)] st split: bind_err_split)
  then show ?thesis by (cases "match_try E s db a b") auto
qed


lemma analyse_all_shape:
  assumes "initialized s = Some b"
  shows "\<exists>us. analyse_all E s db rs jd = Inr us
           \<and> map (\<lambda>u. (resume_id u, resume_metadata u)) us = map (\<lambda>r. (r_id r, r_metadata r)) rs
           \<and> (\<forall>u \<in> set us. overall_score u = match_score (semantic_match u))"
proof (induction rs)
  case Nil
  show ?case by simp
next
  case (Cons r rs)
  obtain m where m: "semantic_resume_match E s db (r_text r) jd = Inr m"
    using semantic_resume_match_total [OF assms, of E db "r_text r" jd] by blast
  obtain i where i: "get_resume_insights E s db (r_text r) = Inr i"
    using get_resume_insights_total [OF assms, of E db "r_text r"] by blast
  from Cons.IH obtain us where us: "analyse_all E s db rs jd = Inr us"
    "map (\<lambda>u. (resume_id u, resume_metadata u)) us = map (\<lambda>r. (r_id r, r_metadata r)) rs"
    "\<forall>u \<in> set us. overall_score u = match_score (semantic_match u)" by blast
  show ?case by (simp add: m i us)
qed

lemma analyse_all_degraded:
  "initialized s = Some False \<Longrightarrow> analyse_all E s db rs jd = Inr (map degraded_result rs)"
  by (induction rs) (simp_all add: semantic_resume_match_def get_resume_insights_def
      generate_recommendations_def zero_match_def zero_insights_def degraded_result_def)

lemma batch_degraded:
  "initialized s = Some False \<Longrightarrow> batch_semantic_analysis E s db rs jd = Inr (map degraded_result rs)"
proof -
  assume a: "initialized s = Some False"
  have "sort_reverse overall_score (map degraded_result rs) = map degraded_result rs"
    by (rule sort_reverse_no_lt) (auto simp: degraded_result_def)
  then show ?thesis
    by (simp add: batch_semantic_analysis_def analyse_all_degraded [OF a])
qed

subsection \<open>Failures of the store\<close>

lemma add_resume_reraises:
  assumes "initialized s = Some True" "embedding_model s = Some m" "encode E m t = Inr e"
    "resume_collection s = Some h"
    "coll_add E h \<lparr>a_document = t, a_embedding = Some e, a_metadata = md, a_id = i\<rparr> db
       = (Inl err, db')"
  shows "add_resume E s db i t md = (Inl err, db')"
  using assms by (simp add: add_resume_def)

lemma add_job_description_reraises:
  assumes "initialized s = Some True" "embedding_model s = Some m" "encode E m t = Inr e"
    "jd_collection s = Some h"
    "coll_add E h \<lparr>a_document = t, a_embedding = Some e, a_metadata = md, a_id = i\<rparr> db
       = (Inl err, db')"
  shows "add_job_description E s db i t md = (Inl err, db')"
  using assms by (simp add: add_job_description_def)

lemma search_similar_resumes_quiet:
  assumes "initialized s = Some True" "embedding_model s = Some m" "encode E m t = Inr e"
    "resume_collection s = Some h" "coll_query E h e n db = Inl err"
  shows "search_similar_resumes E s db t n = Inr []"
  using assms by (simp add: search_similar_resumes_def)

lemma search_similar_jobs_quiet:
  assumes "initialized s = Some True" "embedding_model s = Some m" "encode E m t = Inr e"
    "jd_collection s = Some h" "coll_query E h e n db = Inl err"
  shows "search_similar_jobs E s db t n = Inr []"
  using assms by (simp add: search_similar_jobs_def)

lemma get_relevant_knowledge_quiet:
  assumes "initialized s = Some True" "embedding_model s = Some m" "encode E m t = Inr e"
    "knowledge_collection s = Some h" "coll_query E h e n db = Inl err"
  shows "get_relevant_knowledge E s db t n = Inr []"
  using assms by (simp add: get_relevant_knowledge_def)

lemma stats_try_resume_fails:
  "resume_collection s = Some h \<Longrightarrow> coll_count E h db = Inl err \<Longrightarrow> stats_try E s db = Inl err"
  by (simp add: stats_try_def)

lemma stats_try_jd_fails:
  "jd_collection s = Some h \<Longrightarrow> coll_count E h db = Inl err \<Longrightarrow> \<exists>e. stats_try E s db = Inl e"
  by (cases "bind_err (attr (resume_collection s)) (\<lambda>h. coll_count E h db)")
     (simp_all add: stats_try_def)

lemma stats_try_knowledge_fails:
  "knowledge_collection s = Some h \<Longrightarrow> coll_count E h db = Inl err
     \<Longrightarrow> \<exists>e. stats_try E s db = Inl e"
  by (cases "bind_err (attr (resume_collection s)) (\<lambda>h. coll_count E h db)";
      cases "bind_err (attr (jd_collection s)) (\<lambda>h. coll_count E h db)")
     (simp_all add: stats_try_def)

lemma get_database_stats_quiet:
  assumes "initialized s = Some True"
    "resume_collection s = Some h \<or> jd_collection s = Some h \<or> knowledge_collection s = Some h"
    "coll_count E h db = Inl err"
  shows "get_database_stats E s db = Inr (zero_stats ''error'')"
proof -
  have "\<exists>e. stats_try E s db = Inl e"
    using assms(2,3) stats_try_resume_fails [of s h E db err]
      stats_try_jd_fails [of s h E db err] stats_try_knowledge_fails [of s h E db err]
    by blast
  then show ?thesis using assms(1) by (auto simp: get_database_stats_def)
qed

subsection \<open>Metadata\<close>

lemma dict_set_fresh: "k \<notin> fst ` set d \<Longrightarrow> dict_set d k v = d @ [(k, v)]"
  by (induction d) auto

lemma validate_loop_distinct:
  "distinct (map fst md) \<Longrightarrow> fst ` set md \<inter> fst ` set acc = {} \<Longrightarrow>
   validate_loop f md acc = acc @ map (\<lambda>kv. (fst kv, clean_value f (snd kv))) md"
proof (induction md arbitrary: acc)
  case Nil
  show ?case by simp
next
  case (Cons a md)
  obtain k v where a: "a = (k, v)" by (cases a)
  have fresh: "k \<notin> fst ` set acc" using Cons.prems a by auto
  have d: "distinct (map fst md)" using Cons.prems by simp
  have disj: "fst ` set md \<inter> fst ` set (acc @ [(k, clean_value f v)]) = {}"
    using Cons.prems a by auto
  show ?case
    using Cons.IH [OF d disj] by (simp add: a dict_set_fresh [OF fresh])
qed

lemma clean_value_eq: "clean_value f v = (if is_scalar v then v else VStr (f v))"
  by (cases v) (simp_all add: clean_value_def)

section \<open>The claims\<close>

text \<open>
  Claim C1 (constructor success postcondition): if loading the embedding model, opening
  the three collections and seeding the knowledge base all succeed, \<open>__init__\<close> leaves
  \<open>initialized = True\<close>, and the degraded state is reached only when one of these steps
  raises.

  The code does not meet this. \<open>__init__\<close> calls \<open>_initialize_knowledge_base\<close> before it
  assigns \<open>self.initialized\<close>, and the first statement of the seeder reads that
  attribute: the read raises \<open>AttributeError\<close> outside the seeder's own \<open>try\<close>, the
  \<open>except\<close> branch of \<open>__init__\<close> catches it, and the object ends degraded
  (lemma \<open>init_always_degraded\<close>: for all collaborators). The theorem evaluates the
  constructor on an empty store with collaborators that never fail: the model loads, the
  client opens, the collections are created, and still the flag is \<open>False\<close> and the
  handles are \<open>None\<close>.
\<close>

theorem init_degraded_although_steps_succeed:
  "load_model (spec_env unit_enc zero_dist) ''all-MiniLM-L6-v2'' = Inr ()
   \<and> persistent_client (spec_env unit_enc zero_dist) ''rag_database'' = Inr ()
   \<and> fst (get_or_create_collection (spec_env unit_enc zero_dist) () ''resumes''
             resumes_description Map.empty) = Inr ''resumes''
   \<and> fst (init (spec_env unit_enc zero_dist) ''rag_database'' Map.empty)
       = degraded ''rag_database''
   \<and> initialized (fst (init (spec_env unit_enc zero_dist) ''rag_database'' Map.empty))
       = Some False
   \<and> knowledge_collection (fst (init (spec_env unit_enc zero_dist) ''rag_database'' Map.empty))
       = None"
  by (simp add: init_def init_try_def initialize_knowledge_base_def Let_def spec_env_def
      spec_get_or_create_def degraded_def)

text \<open>
  Claim C2 (degraded-mode totality): with \<open>initialized = False\<close> the three searches return
  the empty list, \<open>semantic_resume_match\<close> and \<open>get_resume_insights\<close> return their
  all-zero mappings, \<open>get_database_stats\<close> returns zero counts with status
  \<open>not_initialized\<close>, and the three write operations change nothing and do not raise.
  \<open>batch_semantic_analysis\<close> has no test of the flag of its own: it returns, in input
  order, one entry per resume made of these zero-value mappings, with score \<open>0.0\<close> and the
  one recommendation that score selects (\<open>degraded_result\<close>).
\<close>

theorem degraded_mode_totality:
  assumes "initialized s = Some False"
  shows "search_similar_resumes E s db q n = Inr []
    \<and> search_similar_jobs E s db q n = Inr []
    \<and> get_relevant_knowledge E s db q n = Inr []
    \<and> semantic_resume_match E s db t jd = Inr zero_match
    \<and> get_resume_insights E s db t = Inr zero_insights
    \<and> get_database_stats E s db = Inr (zero_stats ''not_initialized'')
    \<and> batch_semantic_analysis E s db rs jd = Inr (map degraded_result rs)
    \<and> add_resume E s db i t md = (Inr (), db)
    \<and> add_job_description E s db i t md = (Inr (), db)
    \<and> clear_database E s db = (Inr (), s, db)"
  using assms batch_degraded [of s E db rs jd]
  by (simp add: search_similar_resumes_def search_similar_jobs_def get_relevant_knowledge_def
      semantic_resume_match_def get_resume_insights_def get_database_stats_def
      add_resume_def add_job_description_def clear_database_def)

text \<open>
  The theorem at the degraded state the constructor leaves, with two resumes.
\<close>

theorem degraded_mode_totality_witness:
  "initialized (degraded ''rag_database'' :: (unit, unit, string) rag_system) = Some False
   \<and> batch_semantic_analysis (spec_env unit_enc zero_dist) (degraded ''rag_database'') Map.empty
        two_resumes ''same'' = Inr (map degraded_result two_resumes)
   \<and> get_database_stats (spec_env unit_enc zero_dist) (degraded ''rag_database'') Map.empty
        = Inr (zero_stats ''not_initialized'')
   \<and> add_resume (spec_env unit_enc zero_dist) (degraded ''rag_database'') Map.empty
        ''cv.pdf'' ''text'' [] = (Inr (), Map.empty)"
  using degraded_mode_totality [where s = "degraded ''rag_database''"
      and E = "spec_env unit_enc zero_dist" and db = Map.empty and rs = two_resumes
      and jd = "''same''" and i = "''cv.pdf''" and t = "''text''" and md = "[]"]
  by (simp add: degraded_def)

text \<open>
  Claim C3 (zero-norm safety), as amended. The claim says that with an all-zero embedding
  \<open>semantic_resume_match\<close> returns similarity \<open>0.0\<close>. The source has no test for a zero
  norm: the quotient is the numpy division \<open>0.0 / 0.0\<close>, which gives \<open>nan\<close> and does not
  raise. What holds: in the ready state, for two embeddings of equal length of which at
  least one is all zeros, \<open>semantic_resume_match\<close> does not raise; when the three
  collection counts succeed it returns \<open>semantic_similarity = nan\<close> and
  \<open>match_score = nan\<close>; when a count raises, the \<open>except\<close> branch returns the zero-value
  mapping.
\<close>

theorem zero_norm_yields_nan:
  assumes "initialized s = Some True" "embedding_model s = Some m"
    "encode E m a = Inr ea" "encode E m b = Inr eb" "length ea = length eb"
    "(\<forall>x \<in> set ea. x = 0) \<or> (\<forall>x \<in> set eb. x = 0)"
  shows "\<exists>r. semantic_resume_match E s db a b = Inr r
           \<and> (if counts_succeed E s db
               then semantic_similarity r = NaN \<and> match_score r = NaN
               else r = zero_match)"
proof (cases "counts_succeed E s db")
  case True
  obtain r where r: "match_try E s db a b = Inr r"
    "semantic_similarity r = np_divide (sum_list (map2 (*) ea eb)) (np_norm ea * np_norm eb)"
    using match_try_Inr_value [OF assms(1-5) True] by blast
  have d: "sum_list (map2 (*) ea eb) = 0"
    using assms(6) zero_dot_left zero_dot_right by blast
  have n: "np_norm ea * np_norm eb = 0"
    using assms(6) zero_norm by auto
  have sim: "semantic_similarity r = NaN" by (simp add: r d n np_divide_def)
  have "match_score r = NaN" using match_try_scaled [OF r(1)] sim by simp
  then show ?thesis using True sim r(1) assms(1) by (simp add: semantic_resume_match_def)
next
  case False
  obtain e where "match_try E s db a b = Inl e"
    using match_try_Inl_counts [OF assms(1) False] by blast
  then show ?thesis using False assms(1) by (simp add: semantic_resume_match_def)
qed

text \<open>
  The theorem at a zero vector against a unit vector, over three empty collections.
\<close>

theorem zero_norm_yields_nan_witness:
  "initialized ready_state = Some True \<and> embedding_model ready_state = Some ()
   \<and> encode (spec_env axis_enc zero_dist) () ''zero'' = Inr [0, 0]
   \<and> encode (spec_env axis_enc zero_dist) () ''same'' = Inr [1, 0]
   \<and> counts_succeed (spec_env axis_enc zero_dist) ready_state fresh_db
   \<and> (\<exists>r. semantic_resume_match (spec_env axis_enc zero_dist) ready_state fresh_db ''zero'' ''same'' = Inr r
          \<and> semantic_similarity r = NaN \<and> match_score r = NaN)"
  using zero_norm_yields_nan [of ready_state "()" "spec_env axis_enc zero_dist" "''zero''" "[0, 0]"
      "''same''" "[1, 0]" fresh_db] counts_fresh
  by (simp add: ready_state_def spec_env_def axis_enc_def)

text \<open>
  Claim C3 as stated fails there: the resume text encodes to \<open>[0, 0]\<close>, the job
  description to \<open>[1, 0]\<close>, and the similarity returned is \<open>nan\<close>, not \<open>0.0\<close>.
\<close>

theorem zero_norm_counterexample:
  "map_sum id semantic_similarity
     (semantic_resume_match (spec_env axis_enc zero_dist) ready_state fresh_db ''zero'' ''same'')
     = Inr NaN
   \<and> map_sum id semantic_similarity
     (semantic_resume_match (spec_env axis_enc zero_dist) ready_state fresh_db ''zero'' ''same'')
     \<noteq> Inr (Fin 0)"
  by (simp add: eval_defs)

text \<open>
  Claim C4 (idempotent seeding): running the seed step any number of times leaves exactly
  the ten curated entries in the knowledge collection, regardless of repeated system
  initialization, and the seeder inserts only when \<open>count() == 0\<close>.

  The seeder itself does this once the flag is set: from an empty collection it inserts
  the ten entries \<open>knowledge_0\<close> to \<open>knowledge_9\<close> (lemma \<open>seed_ready_from_empty\<close>), a
  second run changes nothing (\<open>seed_ready_idempotent\<close>), and with a count other than
  zero nothing is inserted (\<open>seed_only_when_empty\<close>). But the call made by \<open>__init__\<close>
  never gets that far: the flag is not assigned yet, the seeder raises before it looks at
  the collection (the defect of claim C1), and the knowledge collection stays empty. The
  theorem evaluates two successive initializations on a store that starts empty: the
  count is 0 after each, where the claim says 10.
\<close>

theorem seeding_skipped_at_startup:
  "spec_count ''screening_knowledge''
     (snd (init (spec_env unit_enc zero_dist) ''rag_database'' Map.empty)) = Inr 0
   \<and> spec_count ''screening_knowledge''
     (snd (init (spec_env unit_enc zero_dist) ''rag_database''
        (snd (init (spec_env unit_enc zero_dist) ''rag_database'' Map.empty)))) = Inr 0
   \<and> length knowledge_base = 10"
  by (simp add: init_def init_try_def initialize_knowledge_base_def Let_def spec_env_def
      spec_get_or_create_def spec_count_def knowledge_base_def)

text \<open>
  Claim C5 (batch ranking), as amended. The claim says that for every input the results
  are in descending order of \<open>overall_score\<close>, ties in input order. A score can be \<open>nan\<close>
  (claim C3), every comparison with \<open>nan\<close> is false, and the sort then leaves elements where
  an ordered list would not have them. What holds: whenever the flag is set,
  \<open>batch_semantic_analysis\<close> returns the sorted list of the per-resume results \<open>us\<close>, which
  are in input order; and when no score is \<open>nan\<close>, the returned list is in descending
  order of \<open>overall_score\<close> and, for every score value, the results with that score stand
  in their input order.
\<close>

theorem batch_ranking_without_nan:
  assumes "initialized s = Some b"
  shows "\<exists>us rs. analyse_all E s db resumes jd = Inr us
           \<and> map resume_id us = map r_id resumes
           \<and> batch_semantic_analysis E s db resumes jd = Inr rs
           \<and> ((\<forall>u \<in> set us. overall_score u \<noteq> NaN) \<longrightarrow>
                sorted_wrt (\<lambda>x y. np_ge (overall_score x) (overall_score y)) rs
                \<and> (\<forall>v. filter (\<lambda>r. overall_score r = v) rs
                        = filter (\<lambda>r. overall_score r = v) us))"
proof -
  obtain us where us: "analyse_all E s db resumes jd = Inr us"
    "map (\<lambda>u. (resume_id u, resume_metadata u)) us = map (\<lambda>r. (r_id r, r_metadata r)) resumes"
    using analyse_all_shape [OF assms, of E db resumes jd] by blast
  have "map fst (map (\<lambda>u. (resume_id u, resume_metadata u)) us)
          = map fst (map (\<lambda>r. (r_id r, r_metadata r)) resumes)"
    using us(2) by simp
  then have ids: "map resume_id us = map r_id resumes" by (simp add: comp_def)
  let ?rs = "sort_reverse overall_score us"
  have b: "batch_semantic_analysis E s db resumes jd = Inr ?rs"
    by (simp add: batch_semantic_analysis_def us(1))
  have srt: "(\<forall>u \<in> set us. overall_score u \<noteq> NaN) \<longrightarrow>
               sorted_wrt (\<lambda>x y. np_ge (overall_score x) (overall_score y)) ?rs"
    using sorted_sort_reverse [of us overall_score] by blast
  have stb: "\<forall>v. filter (\<lambda>r. overall_score r = v) ?rs = filter (\<lambda>r. overall_score r = v) us"
    by (simp add: filter_sort_reverse)
  show ?thesis using us(1) ids b srt stb by blast
qed

text \<open>
  The theorem at two resumes with scores 0 and 100: the second is ranked first.
\<close>

theorem batch_ranking_without_nan_witness:
  "initialized ready_state = Some True
   \<and> (\<exists>rs. batch_semantic_analysis (spec_env axis_enc zero_dist) ready_state fresh_db
              two_resumes ''same'' = Inr rs
          \<and> map (\<lambda>r. (resume_id r, overall_score r)) rs = [(''r3'', Fin 100), (''r1'', Fin 0)]
          \<and> sorted_wrt (\<lambda>x y. np_ge (overall_score x) (overall_score y)) rs)"
  using batch_ranking_without_nan [of ready_state True "spec_env axis_enc zero_dist" fresh_db
      two_resumes "''same''"]
  by (simp add: batch_semantic_analysis_def sort_reverse_def two_resumes_def eval_defs)

text \<open>
  Claim C5 as stated fails at three resumes whose scores are 0, \<open>nan\<close> and 100: both
  comparisons with \<open>nan\<close> are false, the list is returned in input order, and the resume
  that scores 100 stands last, behind the one that scores 0.
\<close>

theorem batch_ranking_counterexample:
  "map_sum id (map (\<lambda>r. (resume_id r, overall_score r)))
     (batch_semantic_analysis (spec_env axis_enc zero_dist) ready_state fresh_db three_resumes ''same'')
   = Inr [(''r1'', Fin 0), (''r2'', NaN), (''r3'', Fin 100)]"
  by (simp add: batch_semantic_analysis_def three_resumes_def sort_reverse_def eval_defs)

text \<open>
  Claim C6 (recommendation generation): the list returned by \<open>_generate_recommendations\<close>
  is one score line followed by one line for each of the insight lists skills, experience
  and red flags that is not empty, in this order, and nothing else; the score line is the
  low-fit line when the score is below 30, the moderate line from 30 up to but not
  including 60, and the strong-fit line from 60 on.
\<close>

theorem recommendations_shape:
  "generate_recommendations m i =
     hd (generate_recommendations m i)
       # (if skill_insights i \<noteq> []
          then [''Focus on technical skill alignment with role requirements''] else [])
       @ (if experience_insights i \<noteq> []
          then [''Evaluate experience quality and relevance to position''] else [])
       @ (if red_flags_insights i \<noteq> []
          then [''Review for potential red flags or inconsistencies''] else [])
   \<and> (np_lt (match_score m) (Fin 30) \<longrightarrow>
        hd (generate_recommendations m i) =
          ''Low match score - consider if this role is the right fit'')
   \<and> (np_ge (match_score m) (Fin 30) \<and> np_lt (match_score m) (Fin 60) \<longrightarrow>
        hd (generate_recommendations m i) = ''Moderate match - review specific skill gaps'')
   \<and> (np_ge (match_score m) (Fin 60) \<longrightarrow>
        hd (generate_recommendations m i) =
          ''Strong match - proceed with detailed evaluation'')"
  by (cases "match_score m") (simp_all add: generate_recommendations_def)

text \<open>
  The theorem at one score of each band.
\<close>

theorem recommendations_shape_witness:
  "np_lt (Fin 12) (Fin 30)
   \<and> generate_recommendations (zero_match\<lparr>match_score := Fin 12\<rparr>) zero_insights
       = [''Low match score - consider if this role is the right fit'']
   \<and> np_ge (Fin 45) (Fin 30) \<and> np_lt (Fin 45) (Fin 60)
   \<and> generate_recommendations (zero_match\<lparr>match_score := Fin 45\<rparr>)
         (zero_insights\<lparr>skill_insights := [''k''], red_flags_insights := [''f'']\<rparr>)
       = [''Moderate match - review specific skill gaps'',
          ''Focus on technical skill alignment with role requirements'',
          ''Review for potential red flags or inconsistencies'']
   \<and> np_ge (Fin 60) (Fin 60)
   \<and> generate_recommendations (zero_match\<lparr>match_score := Fin 60\<rparr>)
         (zero_insights\<lparr>experience_insights := [''e'']\<rparr>)
       = [''Strong match - proceed with detailed evaluation'',
          ''Evaluate experience quality and relevance to position'']"
  using recommendations_shape [of "zero_match\<lparr>match_score := Fin 12\<rparr>" zero_insights]
    recommendations_shape [of "zero_match\<lparr>match_score := Fin 45\<rparr>"
      "zero_insights\<lparr>skill_insights := [''k''], red_flags_insights := [''f'']\<rparr>"]
    recommendations_shape [of "zero_match\<lparr>match_score := Fin 60\<rparr>"
      "zero_insights\<lparr>experience_insights := [''e'']\<rparr>"]
  by (simp add: zero_match_def zero_insights_def generate_recommendations_def)

text \<open>
  Claim C7 (write-loud, read-quiet): in the ready state, an exception of the store's
  insert leaves \<open>add_resume\<close> and \<open>add_job_description\<close> as the same exception; an
  exception of the store's query makes each of the three searches return the empty list;
  an exception of a count makes \<open>get_database_stats\<close> return zero counts with status
  \<open>error\<close>; and none of the four read operations raises, whatever the store does.
\<close>

theorem write_loud_read_quiet:
  assumes "initialized s = Some True"
  shows
   "(embedding_model s = Some m \<and> encode E m t = Inr e \<and> resume_collection s = Some hr
       \<and> coll_add E hr \<lparr>a_document = t, a_embedding = Some e, a_metadata = md, a_id = i\<rparr> db
           = (Inl err, db')
     \<longrightarrow> add_resume E s db i t md = (Inl err, db'))
    \<and> (embedding_model s = Some m \<and> encode E m t = Inr e \<and> jd_collection s = Some hj
       \<and> coll_add E hj \<lparr>a_document = t, a_embedding = Some e, a_metadata = md, a_id = i\<rparr> db
           = (Inl err, db')
     \<longrightarrow> add_job_description E s db i t md = (Inl err, db'))
    \<and> (embedding_model s = Some m \<and> encode E m t = Inr e \<and> resume_collection s = Some hr
       \<and> coll_query E hr e n db = Inl err
     \<longrightarrow> search_similar_resumes E s db t n = Inr [])
    \<and> (embedding_model s = Some m \<and> encode E m t = Inr e \<and> jd_collection s = Some hj
       \<and> coll_query E hj e n db = Inl err
     \<longrightarrow> search_similar_jobs E s db t n = Inr [])
    \<and> (embedding_model s = Some m \<and> encode E m t = Inr e \<and> knowledge_collection s = Some hk
       \<and> coll_query E hk e n db = Inl err
     \<longrightarrow> get_relevant_knowledge E s db t n = Inr [])
    \<and> ((resume_collection s = Some h \<or> jd_collection s = Some h \<or> knowledge_collection s = Some h)
       \<and> coll_count E h db = Inl err
     \<longrightarrow> get_database_stats E s db = Inr (zero_stats ''error''))
    \<and> (\<exists>r. search_similar_resumes E s db t n = Inr r)
    \<and> (\<exists>r. search_similar_jobs E s db t n = Inr r)
    \<and> (\<exists>r. get_relevant_knowledge E s db t n = Inr r)
    \<and> (\<exists>r. get_database_stats E s db = Inr r)"
proof (intro conjI impI)
  show "\<exists>r. search_similar_resumes E s db t n = Inr r"
    using assms by (rule search_similar_resumes_total)
  show "\<exists>r. search_similar_jobs E s db t n = Inr r"
    using assms by (rule search_similar_jobs_total)
  show "\<exists>r. get_relevant_knowledge E s db t n = Inr r"
    using assms by (rule get_relevant_knowledge_total)
  show "\<exists>r. get_database_stats E s db = Inr r"
    using assms by (rule get_database_stats_total)
qed (use assms in \<open>auto intro: add_resume_reraises add_job_description_reraises
       search_similar_resumes_quiet search_similar_jobs_quiet get_relevant_knowledge_quiet
       get_database_stats_quiet\<close>)

text \<open>
  The theorem at a store that rejects a duplicate id, and at a store whose collections
  are gone, so that query and count raise.
\<close>

theorem write_loud_read_quiet_witness:
  "initialized ready_state = Some True
   \<and> coll_add (spec_env unit_enc zero_dist) ''resumes''
        \<lparr>a_document = ''text'', a_embedding = Some [1], a_metadata = [], a_id = ''cv.pdf''\<rparr>
        (fresh_db(''resumes'' \<mapsto> [stored_cv]))
      = (Inl DuplicateIDError, fresh_db(''resumes'' \<mapsto> [stored_cv]))
   \<and> add_resume (spec_env unit_enc zero_dist) ready_state (fresh_db(''resumes'' \<mapsto> [stored_cv]))
        ''cv.pdf'' ''text'' []
      = (Inl DuplicateIDError, fresh_db(''resumes'' \<mapsto> [stored_cv]))
   \<and> coll_query (spec_env unit_enc zero_dist) ''resumes'' [1] 5 Map.empty
      = Inl CollectionNotFoundError
   \<and> search_similar_resumes (spec_env unit_enc zero_dist) ready_state Map.empty ''text'' 5 = Inr []
   \<and> coll_count (spec_env unit_enc zero_dist) ''resumes'' Map.empty = Inl CollectionNotFoundError
   \<and> get_database_stats (spec_env unit_enc zero_dist) ready_state Map.empty
      = Inr (zero_stats ''error'')"
  using
    write_loud_read_quiet [of ready_state "()" "spec_env unit_enc zero_dist" "''text''" "[1]"
      "''resumes''" "[]" "''cv.pdf''" "fresh_db(''resumes'' \<mapsto> [stored_cv])" DuplicateIDError
      "fresh_db(''resumes'' \<mapsto> [stored_cv])" "''job_descriptions''" 5 "''screening_knowledge''"
      "''resumes''"]
    write_loud_read_quiet [of ready_state "()" "spec_env unit_enc zero_dist" "''text''" "[1]"
      "''resumes''" "[]" "''cv.pdf''" Map.empty CollectionNotFoundError
      Map.empty "''job_descriptions''" 5 "''screening_knowledge''"
      "''resumes''"]
  by (simp add: ready_state_def spec_env_def spec_add_def spec_query_def spec_count_def
      fresh_db_def stored_cv_def unit_enc_def)




text \<open>
  Claim C9 (metadata flattening): for a dictionary (an association list with distinct
  keys) \<open>validate_metadata_for_chromadb\<close> returns the same keys in the same order; a
  value of type str, int, float, bool or None is unchanged, and every other value is
  replaced by its string representation. The function has no failing branch.
\<close>

theorem validate_metadata_flattens:
  assumes "distinct (map fst md)"
  shows "validate_metadata_for_chromadb str_of md =
           map (\<lambda>kv. (fst kv, if is_scalar (snd kv) then snd kv else VStr (str_of (snd kv)))) md"
  using validate_loop_distinct [OF assms, of "[]" str_of]
  by (simp add: validate_metadata_for_chromadb_def clean_value_eq)

text \<open>
  The theorem at a dictionary with a string, a list, an integer and a dictionary.
\<close>

theorem validate_metadata_flattens_witness:
  "distinct (map fst [(''filename'', VStr ''cv.pdf''), (''skills'', VList [VStr ''sql'']),
                      (''pages'', VInt 2), (''parsed'', VDict [])])
   \<and> validate_metadata_for_chromadb tag_str
        [(''filename'', VStr ''cv.pdf''), (''skills'', VList [VStr ''sql'']),
         (''pages'', VInt 2), (''parsed'', VDict [])]
      = [(''filename'', VStr ''cv.pdf''), (''skills'', VStr ''[...]''),
         (''pages'', VInt 2), (''parsed'', VStr ''{...}'')]"
  using validate_metadata_flattens [of "[(''filename'', VStr ''cv.pdf''),
      (''skills'', VList [VStr ''sql'']), (''pages'', VInt 2), (''parsed'', VDict [])]" tag_str]
  by (simp add: tag_str_def)

text \<open>
  Claim C10 (batch shape): whenever the flag is set, \<open>batch_semantic_analysis\<close> returns a
  list as long as the input; its \<open>resume_id\<close>s are a permutation of the input ids, each
  with the metadata of its input resume; and in every entry \<open>overall_score\<close> is the
  \<open>match_score\<close> of the entry's \<open>semantic_match\<close>.
\<close>

theorem batch_shape:
  assumes "initialized s = Some b"
  shows "\<exists>rs. batch_semantic_analysis E s db resumes jd = Inr rs
           \<and> length rs = length resumes
           \<and> mset (map resume_id rs) = mset (map r_id resumes)
           \<and> mset (map (\<lambda>r. (resume_id r, resume_metadata r)) rs)
               = mset (map (\<lambda>r. (r_id r, r_metadata r)) resumes)
           \<and> (\<forall>r \<in> set rs. overall_score r = match_score (semantic_match r))"
proof -
  obtain us where us: "analyse_all E s db resumes jd = Inr us"
    "map (\<lambda>u. (resume_id u, resume_metadata u)) us = map (\<lambda>r. (r_id r, r_metadata r)) resumes"
    "\<forall>u \<in> set us. overall_score u = match_score (semantic_match u)"
    using analyse_all_shape [OF assms, of E db resumes jd] by blast
  let ?rs = "sort_reverse overall_score us"
  have b: "batch_semantic_analysis E s db resumes jd = Inr ?rs"
    by (simp add: batch_semantic_analysis_def us(1))
  have m: "mset ?rs = mset us" by (rule mset_sort_reverse)
  have "length ?rs = length us" using m by (rule mset_eq_length)
  moreover have "length us = length resumes" using us(2) by (rule map_eq_imp_length_eq)
  ultimately have len: "length ?rs = length resumes" by simp
  have "image_mset (\<lambda>r. (resume_id r, resume_metadata r)) (mset ?rs)
          = image_mset (\<lambda>r. (resume_id r, resume_metadata r)) (mset us)"
    by (simp only: m)
  then have pairs: "mset (map (\<lambda>r. (resume_id r, resume_metadata r)) ?rs)
                 = mset (map (\<lambda>r. (r_id r, r_metadata r)) resumes)"
    by (simp add: us(2) flip: mset_map)
  have "image_mset fst (mset (map (\<lambda>r. (resume_id r, resume_metadata r)) ?rs))
          = image_mset fst (mset (map (\<lambda>r. (r_id r, r_metadata r)) resumes))"
    by (simp only: pairs)
  then have ids: "mset (map resume_id ?rs) = mset (map r_id resumes)"
    by (simp add: image_mset.compositionality comp_def)
  have sc: "\<forall>r \<in> set ?rs. overall_score r = match_score (semantic_match r)"
    using us(3) by (simp add: set_sort_reverse)
  show ?thesis using b len ids pairs sc by blast
qed

text \<open>
  The theorem at two resumes.
\<close>

theorem batch_shape_witness:
  "initialized ready_state = Some True
   \<and> (\<exists>rs. batch_semantic_analysis (spec_env axis_enc zero_dist) ready_state fresh_db
              two_resumes ''same'' = Inr rs
          \<and> length rs = 2
          \<and> map (\<lambda>r. (resume_id r, resume_metadata r)) rs
              = [(''r3'', [(''filename'', VStr ''b.pdf'')]), (''r1'', [(''filename'', VStr ''a.pdf'')])])"
  using batch_shape [of ready_state True "spec_env axis_enc zero_dist" fresh_db
      two_resumes "''same''"]
  by (simp add: batch_semantic_analysis_def sort_reverse_def two_resumes_def eval_defs)

end
